theory Spec2Isabelle
  imports Complex_Main "HOL-Library.AList" "HOL-Library.Sublist"
begin

section \<open>Python values and exceptions\<close>

text \<open>
  Exceptions of the Python source are values: a function that can raise returns
  \<open>py_error + 'a\<close>, with \<open>Inl\<close> the exception.
\<close>

datatype py_error =
    KeyError string
  | TypeError
  | ValueError
  | AttributeError
  | OtherError string

section \<open>Tier registry (github\_export/utils/tier\_control.py)\<close>

text \<open>A feature flag is either a boolean or a descriptive string.\<close>

datatype feature_value = FBool bool | FStr string

record tier_def =
  level :: int
  price :: string
  description :: string
  data_percentage :: int
  features :: "(string \<times> feature_value) list"
  color :: string
  icon :: string

text \<open>The dict \<open>TIER_DEFINITIONS\<close>, in its insertion order. The icons are the UTF-8
  bytes of the source's emoji.\<close>

definition TIER_DEFINITIONS :: "(string \<times> tier_def) list" where
  "TIER_DEFINITIONS =
    [(''Free'',
        \<lparr>level = 0, price = ''Free'',
         description = ''Basic access to explore market intelligence'',
         data_percentage = 10,
         features =
           [(''market_map'', FStr ''Limited to 10% of data points''),
            (''export'', FBool False),
            (''detailed_analysis'', FBool False),
            (''api_access'', FBool False),
            (''support'', FStr ''Community forum'')],
         color = ''#3498db'',
         icon = [CHR 0xF0, CHR 0x9F, CHR 0x94, CHR 0xB9]\<rparr>),
     (''Accelerate'',
        \<lparr>level = 1, price = ''$49/month'',
         description = ''Enhanced access for growing businesses'',
         data_percentage = 50,
         features =
           [(''market_map'', FStr ''Access to 50% of data points''),
            (''export'', FBool True),
            (''detailed_analysis'', FBool True),
            (''api_access'', FBool False),
            (''support'', FStr ''Email support'')],
         color = ''#f39c12'',
         icon = [CHR 0xF0, CHR 0x9F, CHR 0x94, CHR 0xB8]\<rparr>),
     (''Scale'',
        \<lparr>level = 2, price = ''$199/month'',
         description = ''Full enterprise access with advanced features'',
         data_percentage = 100,
         features =
           [(''market_map'', FStr ''Full access to all data points''),
            (''export'', FBool True),
            (''detailed_analysis'', FBool True),
            (''api_access'', FBool True),
            (''support'', FStr ''Priority support & training'')],
         color = ''#27ae60'',
         icon = [CHR 0xE2, CHR 0xAD, CHR 0x90]\<rparr>)]"

text \<open>\<open>TIER_DEFINITIONS[k]\<close>: a missing key raises \<open>KeyError\<close>.\<close>

definition tier_subscript :: "string \<Rightarrow> py_error + tier_def" where
  "tier_subscript k =
     (case map_of TIER_DEFINITIONS k of
        None \<Rightarrow> Inl (KeyError k)
      | Some d \<Rightarrow> Inr d)"

text \<open>\<open>TIER_DEFINITIONS.get(t, TIER_DEFINITIONS["Free"])\<close>: Python evaluates the
  default argument first, so a registry without \<open>"Free"\<close> would raise.\<close>

definition tier_get_or_free :: "string \<Rightarrow> py_error + tier_def" where
  "tier_get_or_free t =
     (case tier_subscript ''Free'' of
        Inl e \<Rightarrow> Inl e
      | Inr free \<Rightarrow>
          (case map_of TIER_DEFINITIONS t of
             None \<Rightarrow> Inr free
           | Some d \<Rightarrow> Inr d))"

subsection \<open>Session state\<close>

text \<open>
  \<open>st.session_state.user_info\<close> is a dict; each key may be absent, so each field is an
  option. Timestamps are readings of a clock that advances with every
  \<open>datetime.datetime.now()\<close>.
\<close>

record tier_change =
  change_from :: string
  change_to :: string
  change_timestamp :: nat

record user_info =
  tier :: "string option"
  user_name :: "string option"
  email :: "string option"
  last_active :: "nat option"
  feature_usage :: "(string \<times> nat) list option"
  data_access_count :: "nat option"
  login_time :: "nat option"
  user_id :: "string option"
  tier_change_time :: "nat option"
  tier_history :: "tier_change list option"

definition empty_user_info :: user_info where
  "empty_user_info =
     \<lparr>tier = None, user_name = None, email = None, last_active = None,
      feature_usage = None, data_access_count = None, login_time = None,
      user_id = None, tier_change_time = None, tier_history = None\<rparr>"

text \<open>
  The session: the \<open>user_info\<close> entry of \<open>st.session_state\<close> (absent or a dict), the
  clock, and the tier updates sent to the hosted database (user id, tier).
\<close>

record session =
  session_user_info :: "user_info option"
  clock :: nat
  db_updates :: "(string \<times> string) list"

text \<open>
  What the registry reads from outside: whether the module-level Supabase client
  exists, the profile (id, email, tier) that the authenticated-user lookup yields
  (\<open>None\<close> when there is no client, no user, no profile row, or the lookup raises:
  the source catches every exception there), whether the remote profile update
  raises, and which buttons of the upgrade page are pressed in this run.
\<close>

record registry_env =
  supabase :: bool
  auth_profile :: "(string \<times> string \<times> string) option"
  db_update_raises :: bool
  button :: "string \<Rightarrow> bool"

definition now :: "session \<Rightarrow> nat \<times> session" where
  "now s = (clock s, s\<lparr>clock := Suc (clock s)\<rparr>)"

text \<open>The module body: a session without \<open>user_info\<close> gets the demo user.\<close>

definition init_session :: "session \<Rightarrow> session" where
  "init_session s =
     (case session_user_info s of
        Some _ \<Rightarrow> s
      | None \<Rightarrow>
          (let (t1, s1) = now s; (t2, s2) = now s1 in
           s2\<lparr>session_user_info := Some
             \<lparr>tier = Some ''Free'', user_name = Some ''Demo User'',
              email = Some ''demo@example.com'', last_active = Some t1,
              feature_usage = Some [], data_access_count = Some 0,
              login_time = Some t2, user_id = None, tier_change_time = None,
              tier_history = None\<rparr>\<rparr>))"

definition get_user_tier_remote :: "registry_env \<Rightarrow> session \<Rightarrow> string \<times> session" where
  "get_user_tier_remote env s =
     (if supabase env then
        (case auth_profile env of
           Some (uid, mail, t) \<Rightarrow>
             (let ui = (case session_user_info s of None \<Rightarrow> empty_user_info | Some u \<Rightarrow> u);
                  (t1, s1) = now s;
                  ui1 = ui\<lparr>tier := Some t, user_id := Some uid, email := Some mail,
                           last_active := Some t1\<rparr>
              in (case login_time ui1 of
                    None \<Rightarrow>
                      (let (t2, s2) = now s1 in
                       (t, s2\<lparr>session_user_info := Some (ui1\<lparr>login_time := Some t2\<rparr>)\<rparr>))
                  | Some _ \<Rightarrow> (t, s1\<lparr>session_user_info := Some ui1\<rparr>)))
         | None \<Rightarrow> (''Free'', s))
      else (''Free'', s))"

definition get_user_tier :: "registry_env \<Rightarrow> session \<Rightarrow> string \<times> session" where
  "get_user_tier env s =
     (case session_user_info s of
        Some ui \<Rightarrow>
          (case tier ui of
             Some t \<Rightarrow>
               (let (t1, s1) = now s in
                (t, s1\<lparr>session_user_info := Some (ui\<lparr>last_active := Some t1\<rparr>)\<rparr>))
           | None \<Rightarrow> get_user_tier_remote env s)
      | None \<Rightarrow> get_user_tier_remote env s)"

definition get_tier_percentage :: "registry_env \<Rightarrow> session \<Rightarrow> (py_error + int) \<times> session" where
  "get_tier_percentage env s =
     (let (user_tier, s1) = get_user_tier env s in
      (case tier_get_or_free user_tier of
         Inl e \<Rightarrow> (Inl e, s1)
       | Inr d \<Rightarrow> (Inr (data_percentage d), s1)))"

definition set_user_tier :: "registry_env \<Rightarrow> session \<Rightarrow> string \<Rightarrow> bool \<times> session" where
  "set_user_tier env s t =
     (if t \<notin> set (map fst TIER_DEFINITIONS) then (False, s)
      else
        (let ui = (case session_user_info s of None \<Rightarrow> empty_user_info | Some u \<Rightarrow> u);
             previous_tier = (case tier ui of None \<Rightarrow> ''Free'' | Some p \<Rightarrow> p);
             (t1, s1) = now s;
             ui1 = ui\<lparr>tier := Some t, tier_change_time := Some t1\<rparr>;
             hist = (case tier_history ui1 of None \<Rightarrow> [] | Some h \<Rightarrow> h);
             (t2, s2) = now s1;
             ui2 = ui1\<lparr>tier_history := Some (hist @
                     [\<lparr>change_from = previous_tier, change_to = t, change_timestamp = t2\<rparr>])\<rparr>;
             s3 = s2\<lparr>session_user_info := Some ui2\<rparr>
         in (case user_id ui2 of
               Some uid \<Rightarrow>
                 if supabase env \<and> \<not> db_update_raises env
                 then (True, s3\<lparr>db_updates := db_updates s3 @ [(uid, t)]\<rparr>)
                 else (True, s3)
             | None \<Rightarrow> (True, s3))))"

definition track_feature_usage :: "session \<Rightarrow> string \<Rightarrow> session" where
  "track_feature_usage s feature_name =
     (let ui = (case session_user_info s of None \<Rightarrow> empty_user_info | Some u \<Rightarrow> u);
          usage = (case feature_usage ui of None \<Rightarrow> [] | Some u \<Rightarrow> u);
          usage1 = (case map_of usage feature_name of
                      None \<Rightarrow> AList.update feature_name 0 usage
                    | Some _ \<Rightarrow> usage);
          usage2 = AList.update feature_name
                     (case map_of usage1 feature_name of None \<Rightarrow> 1 | Some c \<Rightarrow> c + 1) usage1;
          cnt = (case data_access_count ui of None \<Rightarrow> 0 | Some c \<Rightarrow> c)
      in s\<lparr>session_user_info := Some
            (ui\<lparr>feature_usage := Some usage2, data_access_count := Some (cnt + 1)\<rparr>)\<rparr>)"

definition can_access_feature ::
  "registry_env \<Rightarrow> session \<Rightarrow> string \<Rightarrow> (py_error + bool) \<times> session" where
  "can_access_feature env s feature_name =
     (let (user_tier, s1) = get_user_tier env s in
      (case tier_get_or_free user_tier of
         Inl e \<Rightarrow> (Inl e, s1)
       | Inr tier_info \<Rightarrow>
           (case map_of (features tier_info) feature_name of
              Some (FBool b) \<Rightarrow> (Inr b, s1)
            | Some (FStr _) \<Rightarrow> (Inr True, s1)
            | None \<Rightarrow> (Inr False, s1))))"


subsection \<open>Tier enforcement\<close>

text \<open>
  \<open>enforce_tier\<close> either returns \<open>True\<close> (\<open>Allowed\<close>) or leaves through one of
  Streamlit's control-flow exceptions: \<open>st.stop()\<close> (\<open>Stopped\<close>) or \<open>st.rerun()\<close>
  (\<open>Rerun\<close>); both end the page script, so nothing after the call runs. The
  rendering calls of the upgrade page produce no value and are left out; its
  buttons are kept, since a pressed button changes the tier before the rerun.
\<close>

datatype outcome = Allowed | Stopped | Rerun

text \<open>The loop over the items of \<open>TIER_DEFINITIONS\<close> (so that
  \<open>TIER_DEFINITIONS[tier_name]\<close> is the item's own value): the first pressed upgrade
  button among the tiers at or above the required level sets the tier and reruns.\<close>

fun upgrade_columns ::
  "registry_env \<Rightarrow> int \<Rightarrow> (string \<times> tier_def) list \<Rightarrow> session \<Rightarrow> bool \<times> session" where
  "upgrade_columns env required_level [] s = (False, s)"
| "upgrade_columns env required_level ((tier_name, tier_data) # rest) s =
     (if level tier_data \<ge> required_level \<and> button env (''Upgrade to '' @ tier_name)
      then (True, snd (set_user_tier env s tier_name))
      else upgrade_columns env required_level rest s)"

text \<open>The three demo buttons, tried in order.\<close>

fun demo_controls :: "registry_env \<Rightarrow> string list \<Rightarrow> session \<Rightarrow> bool \<times> session" where
  "demo_controls env [] s = (False, s)"
| "demo_controls env (t # ts) s =
     (if button env (''Switch to '' @ t @ '' Tier'')
      then (True, snd (set_user_tier env s t))
      else demo_controls env ts s)"

definition enforce_tier ::
  "registry_env \<Rightarrow> session \<Rightarrow> string \<Rightarrow> (py_error + outcome) \<times> session" where
  "enforce_tier env s required_tier =
     (let (user_tier, s1) = get_user_tier env s in
      (case tier_get_or_free user_tier of
         Inl e \<Rightarrow> (Inl e, s1)
       | Inr user_def \<Rightarrow>
      (case tier_get_or_free required_tier of
         Inl e \<Rightarrow> (Inl e, s1)
       | Inr required_def \<Rightarrow>
           if level user_def < level required_def then
             (case tier_subscript required_tier of
                Inl e \<Rightarrow> (Inl e, s1)
              | Inr _ \<Rightarrow>
                  (let (rerun, s2) = upgrade_columns env (level required_def) TIER_DEFINITIONS s1 in
                   if rerun then (Inr Rerun, s2)
                   else
                     (let (rerun2, s3) = demo_controls env [''Free'', ''Accelerate'', ''Scale''] s2 in
                      if rerun2 then (Inr Rerun, s3) else (Inr Stopped, s3))))
           else
             (Inr Allowed,
              track_feature_usage s1 (''access_'' @ required_tier @ ''_feature'')))))"

section \<open>JSON values as Python sees them\<close>

text \<open>
  A float is NaN, an infinity or a finite number. Only comparisons of floats with
  constants are needed below, and they are exact; a comparison with NaN is false.
\<close>

datatype fnum = NaN | NegInf | Fin real | PosInf

fun fnum_ge :: "fnum \<Rightarrow> real \<Rightarrow> bool" where
  "fnum_ge NaN c = False"
| "fnum_ge NegInf c = False"
| "fnum_ge (Fin r) c = (r \<ge> c)"
| "fnum_ge PosInf c = True"

fun fnum_le :: "fnum \<Rightarrow> real \<Rightarrow> bool" where
  "fnum_le NaN c = False"
| "fnum_le NegInf c = True"
| "fnum_le (Fin r) c = (r \<le> c)"
| "fnum_le PosInf c = False"

datatype json =
    JNull
  | JBool bool
  | JInt int
  | JFloat fnum
  | JStr string
  | JList "json list"
  | JDict "(string \<times> json) list"

text \<open>A dict with string keys, in insertion order.\<close>

type_synonym row = "(string \<times> json) list"

fun is_dict :: "json \<Rightarrow> bool" where
  "is_dict (JDict d) = True"
| "is_dict _ = False"

text \<open>\<open>k in c\<close> for a string \<open>k\<close>: key of a dict, element of a list, substring of a
  string; any other container type raises \<open>TypeError\<close>.\<close>

fun py_in :: "string \<Rightarrow> json \<Rightarrow> py_error + bool" where
  "py_in k (JDict d) = Inr (k \<in> set (map fst d))"
| "py_in k (JList xs) = Inr (JStr k \<in> set xs)"
| "py_in k (JStr t) = Inr (sublist k t)"
| "py_in k JNull = Inl TypeError"
| "py_in k (JBool b) = Inl TypeError"
| "py_in k (JInt i) = Inl TypeError"
| "py_in k (JFloat x) = Inl TypeError"

text \<open>\<open>c[k]\<close> for a string \<open>k\<close>: only a dict can be subscripted by a string.\<close>

fun py_subscript :: "json \<Rightarrow> string \<Rightarrow> py_error + json" where
  "py_subscript (JDict d) k =
     (case map_of d k of None \<Rightarrow> Inl (KeyError k) | Some v \<Rightarrow> Inr v)"
| "py_subscript _ k = Inl TypeError"

text \<open>\<open>c.get(k)\<close>: only a dict has the method.\<close>

fun py_get :: "json \<Rightarrow> string \<Rightarrow> py_error + json" where
  "py_get (JDict d) k = Inr (case map_of d k of None \<Rightarrow> JNull | Some v \<Rightarrow> v)"
| "py_get _ k = Inl AttributeError"

text \<open>Truth value of a JSON value (\<open>if x\<close>, \<open>not x\<close>).\<close>

fun truthy :: "json \<Rightarrow> bool" where
  "truthy JNull = False"
| "truthy (JBool b) = b"
| "truthy (JInt i) = (i \<noteq> 0)"
| "truthy (JFloat x) = (x \<noteq> Fin 0)"
| "truthy (JStr t) = (t \<noteq> [])"
| "truthy (JList xs) = (xs \<noteq> [])"
| "truthy (JDict d) = (d \<noteq> [])"

text \<open>
  \<open>int(a / b)\<close> for integers \<open>a\<close> and \<open>b > 0\<close>: true division, then truncation toward
  zero. (The quotient is a float in the source; it is exact below \<open>2^53\<close>.)
\<close>

definition py_int_div :: "int \<Rightarrow> int \<Rightarrow> int" where
  "py_int_div a b = (if a \<ge> 0 then a div b else - ((- a) div b))"

text \<open>\<open>xs[:limit]\<close>: a negative limit counts from the end.\<close>

definition py_slice_to :: "'a list \<Rightarrow> int \<Rightarrow> 'a list" where
  "py_slice_to xs limit =
     (if limit \<ge> 0 then take (nat limit) xs
      else take (length xs - nat (- limit)) xs)"

section \<open>Coordinate sanitation (clean\_lat\_lon)\<close>

text \<open>
  \<open>pd.DataFrame(list of dicts)\<close>: the columns are the keys in order of first
  appearance, and a row without a key holds NaN there.
\<close>

definition columns :: "row list \<Rightarrow> string list" where
  "columns rows =
     foldl (\<lambda>cols r. cols @ filter (\<lambda>k. k \<notin> set cols) (remdups (map fst r))) [] rows"

definition pad :: "string list \<Rightarrow> row \<Rightarrow> row" where
  "pad cols r = map (\<lambda>c. (c, case map_of r c of None \<Rightarrow> JFloat NaN | Some v \<Rightarrow> v)) cols"

text \<open>The rows of a list of dicts; \<open>None\<close> when an element is not a dict.\<close>

fun dict_rows :: "json list \<Rightarrow> row list option" where
  "dict_rows [] = Some []"
| "dict_rows (JDict d # xs) = (case dict_rows xs of None \<Rightarrow> None | Some rs \<Rightarrow> Some (d # rs))"
| "dict_rows (_ # xs) = None"

text \<open>The float held by a column of a row (NaN when it holds anything else).\<close>

definition cell :: "row \<Rightarrow> string \<Rightarrow> fnum" where
  "cell r c = (case map_of r c of Some (JFloat x) \<Rightarrow> x | _ \<Rightarrow> NaN)"

text \<open>
  \<open>pd.to_numeric(column, errors='coerce')\<close>, cell by cell. Numbers stay, booleans
  count as 0 and 1, a string goes through the float parser \<open>parse\<close> (NaN when the
  text is no number), and \<open>None\<close> and containers become NaN. (An integer is taken
  as the float of the same value, exact below \<open>2^53\<close>.)
\<close>

fun pd_to_numeric :: "(string \<Rightarrow> fnum) \<Rightarrow> json \<Rightarrow> fnum" where
  "pd_to_numeric parse JNull = NaN"
| "pd_to_numeric parse (JBool b) = Fin (if b then 1 else 0)"
| "pd_to_numeric parse (JInt i) = Fin (of_int i)"
| "pd_to_numeric parse (JFloat x) = x"
| "pd_to_numeric parse (JStr t) = parse t"
| "pd_to_numeric parse (JList xs) = NaN"
| "pd_to_numeric parse (JDict d) = NaN"

text \<open>\<open>df[c] = pd.to_numeric(df[c], errors='coerce')\<close> on one row.\<close>

definition coerce_column :: "(json \<Rightarrow> fnum) \<Rightarrow> string \<Rightarrow> row \<Rightarrow> row" where
  "coerce_column to_num c r = map (\<lambda>(k, v). if k = c then (k, JFloat (to_num v)) else (k, v)) r"

text \<open>
  \<open>clean_lat_lon(data, lat_col, lon_col)\<close>. A list with an element that is not a
  dict has no coordinate column (or fails in the DataFrame constructor), so the
  function raises there as well; an input that is no list raises \<open>ValueError\<close>.
  The result is the list of records of the cleaned frame
  (\<open>df.to_dict(orient="records")\<close>, which both callers apply).
\<close>

definition clean_lat_lon ::
  "(string \<Rightarrow> fnum) \<Rightarrow> json \<Rightarrow> string \<Rightarrow> string \<Rightarrow> py_error + row list" where
  "clean_lat_lon parse data lat_col lon_col =
     (case data of
        JList items \<Rightarrow>
          (case dict_rows items of
             None \<Rightarrow> Inl (KeyError lat_col)
           | Some rows \<Rightarrow>
               (let cols = columns rows;
                    df = map (pad cols) rows
                in if lat_col \<notin> set cols then Inl (KeyError lat_col)
                   else
                     (let df1 = map (coerce_column (pd_to_numeric parse) lat_col) df
                      in if lon_col \<notin> set cols then Inl (KeyError lon_col)
                         else
                           (let df2 = map (coerce_column (pd_to_numeric parse) lon_col) df1;
                                df3 = filter (\<lambda>r. cell r lat_col \<noteq> NaN \<and> cell r lon_col \<noteq> NaN) df2;
                                df4 = filter (\<lambda>r. fnum_ge (cell r lat_col) (- 90) \<and>
                                                   fnum_le (cell r lat_col) 90) df3;
                                df5 = filter (\<lambda>r. fnum_ge (cell r lon_col) (- 180) \<and>
                                                   fnum_le (cell r lon_col) 180) df4
                            in Inr df5))))
      | _ \<Rightarrow> Inl ValueError)"

section \<open>Resilient data gateway (darg\_github\_export\_updated/utils/data\_access.py)\<close>

text \<open>
  What the gateway reads from outside: whether a Supabase client can be had, the
  answer of the remote procedure call for a function name and parameters (it
  raises with a message, or yields \<open>response.data\<close>), the three bundled sample
  loaders (each may raise; the map loader yields the list under \<open>"data"\<close>, the other
  two a dict of record lists), \<open>json.loads\<close> (\<open>None\<close> when it raises) and the
  float parser that pandas applies to a string.
\<close>

datatype rpc_response = RpcRaises string | RpcData json

record gateway_env =
  registry :: registry_env
  client :: bool
  rpc :: "string \<Rightarrow> row \<Rightarrow> rpc_response"
  get_sample_map_data :: "py_error + row list"
  get_sample_demographic_data :: "py_error + (string \<times> json list) list"
  get_sample_market_insights :: "py_error + (string \<times> json list) list"
  json_loads :: "string \<Rightarrow> json option"
  parse_float :: "string \<Rightarrow> fnum"

definition TIER_ACCESS :: "(string \<times> int) list" where
  "TIER_ACCESS = [(''Free'', 33), (''Accelerate'', 66), (''Scale'', 100)]"

definition gateway_tier_percentage :: "gateway_env \<Rightarrow> session \<Rightarrow> int \<times> session" where
  "gateway_tier_percentage env s =
     (let (t, s1) = get_user_tier (registry env) s in
      ((case map_of TIER_ACCESS t of None \<Rightarrow> 33 | Some p \<Rightarrow> p), s1))"

definition error_dict :: "string \<Rightarrow> json" where
  "error_dict msg = JDict [(''error'', JStr msg)]"

text \<open>
  \<open>execute_supabase_function\<close>. Everything after the client check runs inside
  \<open>try\<close>: \<open>len\<close> of a number or boolean and \<open>data[0]\<close> of a dict raise there and become
  an error dict carrying the exception's text.
\<close>

definition execute_supabase_function :: "gateway_env \<Rightarrow> string \<Rightarrow> row \<Rightarrow> json" where
  "execute_supabase_function env function_name params =
     (if \<not> client env then error_dict ''Supabase client not available''
      else
        (case rpc env function_name params of
           RpcRaises msg \<Rightarrow> error_dict msg
         | RpcData d \<Rightarrow>
             if \<not> truthy d then error_dict ''No data returned from Supabase function''
             else
               (case d of
                  JList (x # xs) \<Rightarrow> x
                | JStr (c # cs) \<Rightarrow> JStr [c]
                | JDict _ \<Rightarrow> error_dict ''0''
                | JBool _ \<Rightarrow> error_dict ''object of type 'bool' has no len()''
                | JInt _ \<Rightarrow> error_dict ''object of type 'int' has no len()''
                | JFloat _ \<Rightarrow> error_dict ''object of type 'float' has no len()''
                | _ \<Rightarrow> error_dict ''No data returned from Supabase function'')))"

type_synonym rpc_call = "string \<times> row"

definition rpc_params :: "int \<Rightarrow> string list option \<Rightarrow> row" where
  "rpc_params tier_percentage state_filter =
     [(''tier_percentage'', JInt tier_percentage),
      (''state_filter'', (case state_filter of None \<Rightarrow> JNull | Some sf \<Rightarrow> JList (map JStr sf)))]"

text \<open>The list comprehension of the state filter: \<open>city["state"]\<close> raises for a
  record without the key.\<close>

fun filter_states :: "string list \<Rightarrow> row list \<Rightarrow> py_error + row list" where
  "filter_states sf [] = Inr []"
| "filter_states sf (city # rest) =
     (case map_of city ''state'' of
        None \<Rightarrow> Inl (KeyError ''state'')
      | Some v \<Rightarrow>
          (case filter_states sf rest of
             Inl e \<Rightarrow> Inl e
           | Inr kept \<Rightarrow> Inr (if v \<in> set (map JStr sf) then city # kept else kept)))"

text \<open>The sample-data branch of \<open>get_map_data\<close>; \<open>err\<close> is \<open>result["error"]\<close>.\<close>

definition map_data_fallback ::
  "gateway_env \<Rightarrow> int \<Rightarrow> string list option \<Rightarrow> json \<Rightarrow> json" where
  "map_data_fallback env tier_percentage state_filter err =
     (case get_sample_map_data env of
        Inl e \<Rightarrow> JDict [(''data'', JList []), (''error'', err)]
      | Inr sample \<Rightarrow>
          (case (case state_filter of
                   Some (x # xs) \<Rightarrow> filter_states (x # xs) sample
                 | _ \<Rightarrow> Inr sample) of
             Inl e \<Rightarrow> JDict [(''data'', JList []), (''error'', err)]
           | Inr filtered \<Rightarrow>
               (let limited =
                      (if tier_percentage < 100
                       then py_slice_to filtered
                              (py_int_div (int (length filtered) * tier_percentage) 100)
                       else filtered)
                in (case clean_lat_lon (parse_float env) (JList (map JDict limited))
                           ''latitude'' ''longitude'' of
                      Inl e \<Rightarrow> JDict [(''data'', JList (map JDict limited)),
                                       (''error'', JStr ''Lat/lon cleaning failed'')]
                    | Inr cleaned \<Rightarrow> JDict [(''data'', JList (map JDict cleaned))]))))"

text \<open>The part shared by the three fetches after a successful call: take the
  payload under the function's name when the result has that key, and parse it
  when it is a string that \<open>json.loads\<close> accepts.\<close>

definition extract_payload :: "gateway_env \<Rightarrow> string \<Rightarrow> json \<Rightarrow> py_error + json" where
  "extract_payload env key result =
     (case py_in key result of
        Inl e \<Rightarrow> Inl e
      | Inr has \<Rightarrow>
          (case (if has then py_get result key else Inr result) of
             Inl e \<Rightarrow> Inl e
           | Inr data \<Rightarrow>
               (case data of
                  JStr t \<Rightarrow> (case json_loads env t of None \<Rightarrow> Inr data | Some parsed \<Rightarrow> Inr parsed)
                | _ \<Rightarrow> Inr data)))"

text \<open>What \<open>get_map_data\<close> does with the final result of the remote calls
  ("Process the result" to the end of the function).\<close>

definition map_data_result ::
  "gateway_env \<Rightarrow> int \<Rightarrow> string list option \<Rightarrow> json \<Rightarrow> py_error + json" where
  "map_data_result env tier_percentage state_filter result =
     (case py_in ''error'' result of
        Inl e \<Rightarrow> Inl e
      | Inr True \<Rightarrow>
          (case py_subscript result ''error'' of
             Inl e \<Rightarrow> Inl e
           | Inr err \<Rightarrow> Inr (map_data_fallback env tier_percentage state_filter err))
      | Inr False \<Rightarrow>
          (case extract_payload env ''get_map_data_with_tooltips'' result of
             Inl e \<Rightarrow> Inl e
           | Inr data \<Rightarrow>
               (case clean_lat_lon (parse_float env) data ''latitude'' ''longitude'' of
                  Inl e \<Rightarrow> Inr (JDict [(''data'', data),
                                         (''error'', JStr ''Lat/lon cleaning failed'')])
                | Inr cleaned \<Rightarrow> Inr (JDict [(''data'', JList (map JDict cleaned))]))))"

text \<open>
  The fetches return the value or the exception that leaves the function, the
  session (reading the tier touches \<open>last_active\<close>) and the calls of
  \<open>execute_supabase_function\<close> in the order they were made.
\<close>

definition get_map_data ::
  "gateway_env \<Rightarrow> session \<Rightarrow> string list option \<Rightarrow> (py_error + json) \<times> session \<times> rpc_call list" where
  "get_map_data env s state_filter =
     (let (tier_percentage, s1) = gateway_tier_percentage env s;
          params = rpc_params tier_percentage state_filter;
          first = execute_supabase_function env ''get_map_data_with_tooltips'' params;
          retry = (is_dict first \<and> py_in ''error'' first = Inr True);
          result = (if retry then execute_supabase_function env ''get_enhanced_map_data'' params
                    else first);
          calls = (if retry then [(''get_map_data_with_tooltips'', params),
                                  (''get_enhanced_map_data'', params)]
                   else [(''get_map_data_with_tooltips'', params)])
      in (map_data_result env tier_percentage state_filter result, s1, calls))"

text \<open>\<open>sample[field] = sample[field][:max(1, int(len(sample[field]) * p / 100))]\<close>\<close>

definition limit_field :: "int \<Rightarrow> string \<Rightarrow> (string \<times> json list) list \<Rightarrow> (string \<times> json list) list" where
  "limit_field tier_percentage field sample =
     (case map_of sample field of
        None \<Rightarrow> sample
      | Some xs \<Rightarrow>
          AList.update field
            (py_slice_to xs (max 1 (py_int_div (int (length xs) * tier_percentage) 100))) sample)"








section \<open>Generic tier limit (apply\_tier\_limit)\<close>

text \<open>The argument is a JSON value or a DataFrame. \<open>not data\<close> raises \<open>ValueError\<close>
  for a DataFrame (its truth value is ambiguous), before the DataFrame branch.\<close>

datatype tier_data = Json json | Frame "row list"

definition limit_size :: "nat \<Rightarrow> int \<Rightarrow> int" where
  "limit_size n tier_percentage = max 1 (py_int_div (int n * tier_percentage) 100)"

text \<open>The dict branch: a shallow copy with the list cut and a \<open>meta\<close> entry filled
  in; a \<open>meta\<close> that is present and no dict cannot take the item assignment.\<close>

definition limit_data_dict :: "int \<Rightarrow> row \<Rightarrow> json list \<Rightarrow> py_error + json" where
  "limit_data_dict tier_percentage d xs =
     (let size = limit_size (length xs) tier_percentage;
          data_copy = AList.update ''data'' (JList (py_slice_to xs size)) d;
          data_copy1 = (if ''meta'' \<notin> set (map fst data_copy)
                        then AList.update ''meta'' (JDict []) data_copy else data_copy)
      in (case map_of data_copy1 ''meta'' of
            Some (JDict meta) \<Rightarrow>
              Inr (JDict (AList.update ''meta''
                     (JDict (AList.update ''total'' (JInt (int (length xs)))
                            (AList.update ''showing'' (JInt size)
                            (AList.update ''tier_percentage'' (JInt tier_percentage)
                            (AList.update ''tier_limited'' (JBool True) meta)))))
                     data_copy1))
          | _ \<Rightarrow> Inl TypeError))"

definition apply_tier_limit ::
  "registry_env \<Rightarrow> session \<Rightarrow> tier_data \<Rightarrow> int option \<Rightarrow> (py_error + tier_data) \<times> session" where
  "apply_tier_limit env s data tier_percentage =
     (let (tp, s1) = (case tier_percentage of
                        None \<Rightarrow> get_tier_percentage env s
                      | Some p \<Rightarrow> (Inr p, s))
      in (case tp of
            Inl e \<Rightarrow> (Inl e, s1)
          | Inr p \<Rightarrow>
              (case data of
                 Frame rows \<Rightarrow> (Inl ValueError, s1)
               | Json j \<Rightarrow>
                   if \<not> truthy j then (Inr data, s1)
                   else if p \<ge> 100 then (Inr data, s1)
                   else
                     (case j of
                        JList xs \<Rightarrow>
                          (Inr (Json (JList (py_slice_to xs (limit_size (length xs) p)))), s1)
                      | JDict d \<Rightarrow>
                          (case map_of d ''data'' of
                             Some (JList xs) \<Rightarrow>
                               (case limit_data_dict p d xs of
                                  Inl e \<Rightarrow> (Inl e, s1)
                                | Inr r \<Rightarrow> (Inr (Json r), s1))
                           | _ \<Rightarrow> (Inr data, s1))
                      | _ \<Rightarrow> (Inr data, s1)))))"

section \<open>Bundled sample data (utils/sample\_data.py)\<close>

text \<open>
  The city table of \<open>get_sample_map_data\<close>. The loop that follows it in the source
  adds market fields drawn from the random generator to every city; \<open>gen\<close> stands
  for those fields. The coordinates are the decimal literals of the source.
\<close>

definition cities :: "row list" where
  "cities =
    [[(''city'', JStr ''New York''), (''state'', JStr ''NY''),
      (''latitude'', JFloat (Fin (407128 / 10000))), (''longitude'', JFloat (Fin (- (740060 / 10000)))),
      (''population'', JInt 8804190)],
     [(''city'', JStr ''Los Angeles''), (''state'', JStr ''CA''),
      (''latitude'', JFloat (Fin (340522 / 10000))), (''longitude'', JFloat (Fin (- (1182437 / 10000)))),
      (''population'', JInt 3898747)],
     [(''city'', JStr ''Chicago''), (''state'', JStr ''IL''),
      (''latitude'', JFloat (Fin (418781 / 10000))), (''longitude'', JFloat (Fin (- (876298 / 10000)))),
      (''population'', JInt 2746388)],
     [(''city'', JStr ''Houston''), (''state'', JStr ''TX''),
      (''latitude'', JFloat (Fin (297604 / 10000))), (''longitude'', JFloat (Fin (- (953698 / 10000)))),
      (''population'', JInt 2304580)],
     [(''city'', JStr ''Phoenix''), (''state'', JStr ''AZ''),
      (''latitude'', JFloat (Fin (334484 / 10000))), (''longitude'', JFloat (Fin (- (1120740 / 10000)))),
      (''population'', JInt 1608139)],
     [(''city'', JStr ''Philadelphia''), (''state'', JStr ''PA''),
      (''latitude'', JFloat (Fin (399526 / 10000))), (''longitude'', JFloat (Fin (- (751652 / 10000)))),
      (''population'', JInt 1603797)],
     [(''city'', JStr ''San Antonio''), (''state'', JStr ''TX''),
      (''latitude'', JFloat (Fin (294241 / 10000))), (''longitude'', JFloat (Fin (- (984936 / 10000)))),
      (''population'', JInt 1434625)],
     [(''city'', JStr ''San Diego''), (''state'', JStr ''CA''),
      (''latitude'', JFloat (Fin (327157 / 10000))), (''longitude'', JFloat (Fin (- (1171611 / 10000)))),
      (''population'', JInt 1386932)],
     [(''city'', JStr ''Dallas''), (''state'', JStr ''TX''),
      (''latitude'', JFloat (Fin (327767 / 10000))), (''longitude'', JFloat (Fin (- (967970 / 10000)))),
      (''population'', JInt 1304379)],
     [(''city'', JStr ''San Jose''), (''state'', JStr ''CA''),
      (''latitude'', JFloat (Fin (373382 / 10000))), (''longitude'', JFloat (Fin (- (1218863 / 10000)))),
      (''population'', JInt 1013240)],
     [(''city'', JStr ''Austin''), (''state'', JStr ''TX''),
      (''latitude'', JFloat (Fin (302672 / 10000))), (''longitude'', JFloat (Fin (- (977431 / 10000)))),
      (''population'', JInt 961855)],
     [(''city'', JStr ''Jacksonville''), (''state'', JStr ''FL''),
      (''latitude'', JFloat (Fin (303322 / 10000))), (''longitude'', JFloat (Fin (- (816557 / 10000)))),
      (''population'', JInt 911507)],
     [(''city'', JStr ''Fort Worth''), (''state'', JStr ''TX''),
      (''latitude'', JFloat (Fin (327555 / 10000))), (''longitude'', JFloat (Fin (- (973308 / 10000)))),
      (''population'', JInt 895008)],
     [(''city'', JStr ''Columbus''), (''state'', JStr ''OH''),
      (''latitude'', JFloat (Fin (399612 / 10000))), (''longitude'', JFloat (Fin (- (829988 / 10000)))),
      (''population'', JInt 878553)],
     [(''city'', JStr ''Indianapolis''), (''state'', JStr ''IN''),
      (''latitude'', JFloat (Fin (397684 / 10000))), (''longitude'', JFloat (Fin (- (861581 / 10000)))),
      (''population'', JInt 863002)],
     [(''city'', JStr ''Charlotte''), (''state'', JStr ''NC''),
      (''latitude'', JFloat (Fin (352271 / 10000))), (''longitude'', JFloat (Fin (- (808431 / 10000)))),
      (''population'', JInt 874579)],
     [(''city'', JStr ''San Francisco''), (''state'', JStr ''CA''),
      (''latitude'', JFloat (Fin (377749 / 10000))), (''longitude'', JFloat (Fin (- (1224194 / 10000)))),
      (''population'', JInt 873965)],
     [(''city'', JStr ''Seattle''), (''state'', JStr ''WA''),
      (''latitude'', JFloat (Fin (476062 / 10000))), (''longitude'', JFloat (Fin (- (1223321 / 10000)))),
      (''population'', JInt 737015)],
     [(''city'', JStr ''Denver''), (''state'', JStr ''CO''),
      (''latitude'', JFloat (Fin (397392 / 10000))), (''longitude'', JFloat (Fin (- (1049903 / 10000)))),
      (''population'', JInt 715522)],
     [(''city'', JStr ''Washington''), (''state'', JStr ''DC''),
      (''latitude'', JFloat (Fin (389072 / 10000))), (''longitude'', JFloat (Fin (- (770369 / 10000)))),
      (''population'', JInt 689545)],
     [(''city'', JStr ''Boston''), (''state'', JStr ''MA''),
      (''latitude'', JFloat (Fin (423601 / 10000))), (''longitude'', JFloat (Fin (- (710589 / 10000)))),
      (''population'', JInt 675647)],
     [(''city'', JStr ''Nashville''), (''state'', JStr ''TN''),
      (''latitude'', JFloat (Fin (361627 / 10000))), (''longitude'', JFloat (Fin (- (867816 / 10000)))),
      (''population'', JInt 689447)],
     [(''city'', JStr ''Portland''), (''state'', JStr ''OR''),
      (''latitude'', JFloat (Fin (455051 / 10000))), (''longitude'', JFloat (Fin (- (1226750 / 10000)))),
      (''population'', JInt 641162)],
     [(''city'', JStr ''Las Vegas''), (''state'', JStr ''NV''),
      (''latitude'', JFloat (Fin (361699 / 10000))), (''longitude'', JFloat (Fin (- (1151398 / 10000)))),
      (''population'', JInt 641903)],
     [(''city'', JStr ''Detroit''), (''state'', JStr ''MI''),
      (''latitude'', JFloat (Fin (423314 / 10000))), (''longitude'', JFloat (Fin (- (830458 / 10000)))),
      (''population'', JInt 639111)],
     [(''city'', JStr ''Atlanta''), (''state'', JStr ''GA''),
      (''latitude'', JFloat (Fin (337490 / 10000))), (''longitude'', JFloat (Fin (- (843880 / 10000)))),
      (''population'', JInt 498715)],
     [(''city'', JStr ''Miami''), (''state'', JStr ''FL''),
      (''latitude'', JFloat (Fin (257617 / 10000))), (''longitude'', JFloat (Fin (- (801918 / 10000)))),
      (''population'', JInt 454279)],
     [(''city'', JStr ''Minneapolis''), (''state'', JStr ''MN''),
      (''latitude'', JFloat (Fin (449778 / 10000))), (''longitude'', JFloat (Fin (- (932650 / 10000)))),
      (''population'', JInt 420324)],
     [(''city'', JStr ''New Orleans''), (''state'', JStr ''LA''),
      (''latitude'', JFloat (Fin (299511 / 10000))), (''longitude'', JFloat (Fin (- (900715 / 10000)))),
      (''population'', JInt 390144)],
     [(''city'', JStr ''St. Louis''), (''state'', JStr ''MO''),
      (''latitude'', JFloat (Fin (386270 / 10000))), (''longitude'', JFloat (Fin (- (901994 / 10000)))),
      (''population'', JInt 308174)]]"

definition sample_map_rows :: "(row \<Rightarrow> row) \<Rightarrow> row list" where
  "sample_map_rows gen = map (\<lambda>city. city @ gen city) cities"

section \<open>Derived opportunity score (components/opportunity\_map.py)\<close>







section \<open>The claims' vocabulary\<close>

text \<open>A record's coordinate as a number: NaN when the key is absent or the value
  does not convert.\<close>

definition coordinate :: "(string \<Rightarrow> fnum) \<Rightarrow> row \<Rightarrow> string \<Rightarrow> fnum" where
  "coordinate parse r c = (case map_of r c of None \<Rightarrow> NaN | Some v \<Rightarrow> pd_to_numeric parse v)"

text \<open>A record has valid coordinates when both convert to numbers, the latitude
  within \<open>[-90, 90]\<close> and the longitude within \<open>[-180, 180]\<close>.\<close>

definition valid_coordinates :: "(string \<Rightarrow> fnum) \<Rightarrow> row \<Rightarrow> bool" where
  "valid_coordinates parse r =
     (coordinate parse r ''latitude'' \<noteq> NaN \<and> coordinate parse r ''longitude'' \<noteq> NaN \<and>
      fnum_ge (coordinate parse r ''latitude'') (- 90) \<and>
      fnum_le (coordinate parse r ''latitude'') 90 \<and>
      fnum_ge (coordinate parse r ''longitude'') (- 180) \<and>
      fnum_le (coordinate parse r ''longitude'') 180)"

text \<open>Leaving \<open>enforce_tier\<close> through \<open>st.stop()\<close> or \<open>st.rerun()\<close>: the caller's code
  after the call does not run.\<close>

definition halts :: "py_error + outcome \<Rightarrow> bool" where
  "halts r = (r = Inr Stopped \<or> r = Inr Rerun)"

text \<open>A result of \<open>execute_supabase_function\<close> that reports a remote failure.\<close>

definition remote_failed :: "json \<Rightarrow> bool" where
  "remote_failed r = (is_dict r \<and> py_in ''error'' r = Inr True)"

text \<open>A record passes the state filter when its \<open>state\<close> is one of the requested
  codes.\<close>

definition in_states :: "string list \<Rightarrow> row \<Rightarrow> bool" where
  "in_states sf r =
     (case map_of r ''state'' of None \<Rightarrow> False | Some v \<Rightarrow> v \<in> set (map JStr sf))"

text \<open>A record as the cleaned frame returns it: one cell per column of the frame,
  the two coordinates converted to numbers.\<close>

definition cleaned_record :: "(string \<Rightarrow> fnum) \<Rightarrow> string list \<Rightarrow> row \<Rightarrow> row" where
  "cleaned_record parse cols r =
     coerce_column (pd_to_numeric parse) ''longitude''
       (coerce_column (pd_to_numeric parse) ''latitude'' (pad cols r))"



section \<open>Concrete sessions and environments\<close>

definition quiet_registry :: registry_env where
  "quiet_registry =
     \<lparr>supabase = False, auth_profile = None, db_update_raises = False,
      button = (\<lambda>label. False)\<rparr>"

definition session_of_tier :: "string \<Rightarrow> session" where
  "session_of_tier t =
     \<lparr>session_user_info = Some (empty_user_info\<lparr>tier := Some t\<rparr>), clock = 0, db_updates = []\<rparr>"

text \<open>A float parser that accepts no text, and four records: the second has a
  latitude out of range, the third a latitude that is no number.\<close>

definition unparsed :: "string \<Rightarrow> fnum" where
  "unparsed t = NaN"

definition probe_rows :: "row list" where
  "probe_rows =
     [[(''city'', JStr ''A''), (''state'', JStr ''NY''),
       (''latitude'', JFloat (Fin 40)), (''longitude'', JFloat (Fin (- 74)))],
      [(''city'', JStr ''B''), (''state'', JStr ''NY''),
       (''latitude'', JFloat (Fin 95)), (''longitude'', JFloat (Fin 10))],
      [(''city'', JStr ''C''), (''state'', JStr ''CA''),
       (''latitude'', JStr ''n/a''), (''longitude'', JFloat (Fin (- 118)))],
      [(''city'', JStr ''D''), (''state'', JStr ''CA''),
       (''latitude'', JInt 34), (''longitude'', JInt (- 118))]]"

text \<open>No client can be had, so every remote call reports an error; the sample
  loaders work.\<close>

definition offline_env :: "row list \<Rightarrow> gateway_env" where
  "offline_env sample =
     \<lparr>registry = quiet_registry, client = False,
      rpc = (\<lambda>function_name params. RpcRaises ''timeout''),
      get_sample_map_data = Inr sample,
      get_sample_demographic_data = Inr [(''summary'', [])],
      get_sample_market_insights = Inr [(''by_state'', []), (''by_segment'', [])],
      json_loads = (\<lambda>t. None),
      parse_float = unparsed\<rparr>"








section \<open>Properties of the tier registry\<close>

lemma tier_subscript_Free:
  "\<exists>d. tier_subscript ''Free'' = Inr d \<and> level d = 0 \<and> data_percentage d = 10"
  by (simp add: tier_subscript_def TIER_DEFINITIONS_def)

lemma tier_get_or_free_known:
  "map_of TIER_DEFINITIONS t = Some d \<Longrightarrow> tier_get_or_free t = Inr d"
  using tier_subscript_Free by (auto simp: tier_get_or_free_def split: sum.splits)


lemma tier_get_or_free_total: "\<exists>d. tier_get_or_free t = Inr d \<and> 0 \<le> level d"
  by (simp add: tier_get_or_free_def tier_subscript_def TIER_DEFINITIONS_def)

lemma level_pos_known:
  "tier_get_or_free t = Inr d \<Longrightarrow> 0 < level d \<Longrightarrow> \<exists>d'. tier_subscript t = Inr d'"
  by (auto simp add: tier_get_or_free_def tier_subscript_def TIER_DEFINITIONS_def split: if_splits)

lemma get_user_tier_session_of_tier:
  "fst (get_user_tier env (session_of_tier t)) = t"
  by (simp add: get_user_tier_def session_of_tier_def now_def)

lemma upgrade_columns_fst:
  "fst (upgrade_columns env l xs s) = fst (upgrade_columns env l xs s')"
proof (induction xs)
  case Nil
  show ?case by simp
next
  case (Cons a xs)
  obtain n d where a: "a = (n, d)" by (cases a)
  show ?case unfolding a using Cons.IH by simp
qed

lemma demo_controls_fst:
  "fst (demo_controls env ts s) = fst (demo_controls env ts s')"
proof (induction ts)
  case Nil
  show ?case by simp
next
  case (Cons t ts)
  show ?case using Cons.IH by simp
qed

text \<open>The value of \<open>enforce_tier\<close>, from the two levels and the pressed buttons.\<close>

lemma enforce_tier_fst:
  assumes "tier_get_or_free (fst (get_user_tier env s)) = Inr ud"
      and "tier_get_or_free required = Inr rd"
  shows "fst (enforce_tier env s required) =
     (if level ud < level rd then
        (if fst (upgrade_columns env (level rd) TIER_DEFINITIONS s) then Inr Rerun
         else if fst (demo_controls env [''Free'', ''Accelerate'', ''Scale''] s) then Inr Rerun
         else Inr Stopped)
      else Inr Allowed)"
proof (cases "level ud < level rd")
  case False
  with assms show ?thesis
    by (auto simp: enforce_tier_def split: prod.splits)
next
  case True
  obtain ut s1 where g: "get_user_tier env s = (ut, s1)" by (cases "get_user_tier env s")
  have "0 \<le> level ud"
    using tier_get_or_free_total[of "fst (get_user_tier env s)"] assms(1) by auto
  with True have "0 < level rd" by simp
  then obtain d' where d': "tier_subscript required = Inr d'"
    using level_pos_known[OF assms(2)] by blast
  obtain r2 s2 where u: "upgrade_columns env (level rd) TIER_DEFINITIONS s1 = (r2, s2)"
    by (cases "upgrade_columns env (level rd) TIER_DEFINITIONS s1")
  obtain r3 s3 where d: "demo_controls env [''Free'', ''Accelerate'', ''Scale''] s2 = (r3, s3)"
    by (cases "demo_controls env [''Free'', ''Accelerate'', ''Scale''] s2")
  have r2: "fst (upgrade_columns env (level rd) TIER_DEFINITIONS s) = r2"
    by (metis u upgrade_columns_fst fst_conv)
  have r3: "fst (demo_controls env [''Free'', ''Accelerate'', ''Scale''] s) = r3"
    by (metis d demo_controls_fst fst_conv)
  show ?thesis
    using True assms g d' u d
    unfolding r2 r3 enforce_tier_def by simp
qed






text \<open>
  C5. For every pair (required, active) of defined tiers, \<open>enforce_tier\<close> leaves
  through \<open>st.stop()\<close> or \<open>st.rerun()\<close>, so that the caller does not continue, whenever
  the level of the active tier is below the level of the required tier, and
  returns \<open>True\<close> without halting whenever it is at or above it.
\<close>

theorem enforce_tier_matrix:
  assumes "map_of TIER_DEFINITIONS required = Some rd"
      and "map_of TIER_DEFINITIONS active = Some ad"
      and "fst (get_user_tier env s) = active"
  shows "(level ad < level rd \<longrightarrow> halts (fst (enforce_tier env s required))) \<and>
         (level rd \<le> level ad \<longrightarrow> fst (enforce_tier env s required) = Inr Allowed)"
proof -
  have ud: "tier_get_or_free (fst (get_user_tier env s)) = Inr ad"
    using assms(2,3) tier_get_or_free_known by simp
  have rd: "tier_get_or_free required = Inr rd"
    using assms(1) by (rule tier_get_or_free_known)
  show ?thesis
    unfolding enforce_tier_fst[OF ud rd] by (simp add: halts_def)
qed

theorem enforce_tier_matrix_witness:
  "halts (fst (enforce_tier quiet_registry (session_of_tier ''Free'') ''Scale'')) \<and>
   halts (fst (enforce_tier quiet_registry (session_of_tier ''Accelerate'') ''Scale'')) \<and>
   fst (enforce_tier quiet_registry (session_of_tier ''Scale'') ''Accelerate'') = Inr Allowed \<and>
   fst (enforce_tier quiet_registry (session_of_tier ''Scale'') ''Scale'') = Inr Allowed"
proof -
  obtain fd where fd: "map_of TIER_DEFINITIONS ''Free'' = Some fd" "level fd = 0"
    by (simp add: TIER_DEFINITIONS_def)
  obtain ad where ad: "map_of TIER_DEFINITIONS ''Accelerate'' = Some ad" "level ad = 1"
    by (simp add: TIER_DEFINITIONS_def)
  obtain sd where sd: "map_of TIER_DEFINITIONS ''Scale'' = Some sd" "level sd = 2"
    by (simp add: TIER_DEFINITIONS_def)
  note g = get_user_tier_session_of_tier
  show ?thesis
    using enforce_tier_matrix[OF sd(1) fd(1) g] enforce_tier_matrix[OF sd(1) ad(1) g]
      enforce_tier_matrix[OF ad(1) sd(1) g] enforce_tier_matrix[OF sd(1) sd(1) g]
    by (simp add: fd ad sd)
qed



text \<open>
  C9. For every defined tier and every feature name, \<open>can_access_feature\<close> is true
  exactly when the feature name is a key of the tier's feature map whose value is
  the boolean true or a string; it is false for the boolean false and for an
  absent key.
\<close>

theorem can_access_feature_iff:
  assumes "fst (get_user_tier env s) = t" and "map_of TIER_DEFINITIONS t = Some d"
  shows "fst (can_access_feature env s f) =
           Inr (\<exists>v. map_of (features d) f = Some v \<and> (v = FBool True \<or> (\<exists>txt. v = FStr txt)))"
  using assms tier_get_or_free_known[OF assms(2)]
  by (auto simp: can_access_feature_def split: prod.splits option.splits feature_value.splits)

theorem can_access_feature_iff_witness:
  "fst (can_access_feature quiet_registry (session_of_tier ''Accelerate'') ''export'') = Inr True \<and>
   fst (can_access_feature quiet_registry (session_of_tier ''Accelerate'') ''market_map'') = Inr True \<and>
   fst (can_access_feature quiet_registry (session_of_tier ''Accelerate'') ''api_access'') = Inr False \<and>
   fst (can_access_feature quiet_registry (session_of_tier ''Accelerate'') ''reports'') = Inr False"
proof -
  obtain d where d: "map_of TIER_DEFINITIONS ''Accelerate'' = Some d"
    and f: "features d =
           [(''market_map'', FStr ''Access to 50% of data points''),
            (''export'', FBool True),
            (''detailed_analysis'', FBool True),
            (''api_access'', FBool False),
            (''support'', FStr ''Email support'')]"
    by (simp add: TIER_DEFINITIONS_def)
  note g = get_user_tier_session_of_tier
  show ?thesis
    using can_access_feature_iff[OF g d, of quiet_registry "''export''"]
      can_access_feature_iff[OF g d, of quiet_registry "''market_map''"]
      can_access_feature_iff[OF g d, of quiet_registry "''api_access''"]
      can_access_feature_iff[OF g d, of quiet_registry "''reports''"]
    by (simp add: f)
qed

text \<open>
  C10. \<open>set_user_tier\<close> with a name that is not a defined tier returns \<open>False\<close> and
  leaves the session as it was; with a defined tier it returns \<open>True\<close>, and the
  session then holds the new tier, the time of the change, and the tier history
  extended by the change from the previous tier (\<open>"Free"\<close> when none was set).
\<close>

theorem set_user_tier_validates:
  "(t \<notin> set (map fst TIER_DEFINITIONS) \<longrightarrow> set_user_tier env s t = (False, s)) \<and>
   (t \<in> set (map fst TIER_DEFINITIONS) \<longrightarrow>
      fst (set_user_tier env s t) = True \<and>
      (\<exists>ui. session_user_info (snd (set_user_tier env s t)) = Some ui \<and>
            tier ui = Some t \<and>
            tier_change_time ui = Some (clock s) \<and>
            tier_history ui =
              Some ((case session_user_info s of
                       None \<Rightarrow> []
                     | Some u \<Rightarrow> (case tier_history u of None \<Rightarrow> [] | Some h \<Rightarrow> h)) @
                    [\<lparr>change_from =
                        (case session_user_info s of
                           None \<Rightarrow> ''Free''
                         | Some u \<Rightarrow> (case tier u of None \<Rightarrow> ''Free'' | Some p \<Rightarrow> p)),
                      change_to = t,
                      change_timestamp = Suc (clock s)\<rparr>])))"
  by (auto simp: set_user_tier_def now_def Let_def empty_user_info_def
           split: option.splits prod.splits)

theorem set_user_tier_validates_witness:
  "set_user_tier quiet_registry (session_of_tier ''Free'') ''Gold'' =
     (False, session_of_tier ''Free'') \<and>
   fst (set_user_tier quiet_registry (session_of_tier ''Free'') ''Scale'') = True \<and>
   (\<exists>ui. session_user_info (snd (set_user_tier quiet_registry (session_of_tier ''Free'') ''Scale''))
            = Some ui \<and>
         tier ui = Some ''Scale'' \<and>
         tier_history ui =
           Some [\<lparr>change_from = ''Free'', change_to = ''Scale'', change_timestamp = 1\<rparr>])"
proof -
  have u: "''Gold'' \<notin> set (map fst TIER_DEFINITIONS)"
    and k: "''Scale'' \<in> set (map fst TIER_DEFINITIONS)"
    by (simp_all add: TIER_DEFINITIONS_def)
  have s: "session_user_info (session_of_tier ''Free'') = Some (empty_user_info\<lparr>tier := Some ''Free''\<rparr>)"
    "clock (session_of_tier ''Free'') = 0"
    by (simp_all add: session_of_tier_def)
  show ?thesis
    using set_user_tier_validates[of "''Gold''" quiet_registry "session_of_tier ''Free''"]
      set_user_tier_validates[of "''Scale''" quiet_registry "session_of_tier ''Free''"] u k
    by (auto simp: s empty_user_info_def)
qed


section \<open>Properties of the data gateway\<close>

lemma gateway_tier_percentage_range:
  "fst (gateway_tier_percentage env s) \<in> {33, 66, 100}"
  by (auto simp: gateway_tier_percentage_def TIER_ACCESS_def split: prod.splits)

lemma gateway_tier_percentage_session_of_tier:
  "fst (gateway_tier_percentage env (session_of_tier t)) =
     (case map_of TIER_ACCESS t of None \<Rightarrow> 33 | Some p \<Rightarrow> p)"
  by (simp add: gateway_tier_percentage_def get_user_tier_def session_of_tier_def now_def)

lemma execute_offline:
  "\<not> client env \<Longrightarrow>
     execute_supabase_function env fn p = error_dict ''Supabase client not available''"
  by (simp add: execute_supabase_function_def)

lemma remote_failed_error_dict: "remote_failed (error_dict msg)"
  by (simp add: remote_failed_def error_dict_def)

lemma filter_states_total:
  assumes "\<forall>r\<in>set rows. map_of r ''state'' \<noteq> None"
  shows "filter_states sf rows = Inr (filter (in_states sf) rows)"
  using assms
proof (induction rows)
  case Nil
  show ?case by simp
next
  case (Cons a rows)
  then obtain v where v: "map_of a ''state'' = Some v" by auto
  have a: "in_states sf a = (v \<in> set (map JStr sf))"
    by (simp add: in_states_def v)
  from Cons have "filter_states sf rows = Inr (filter (in_states sf) rows)" by simp
  then show ?case by (simp add: v a)
qed

lemma map_of_append_left:
  "map_of c k \<noteq> None \<Longrightarrow> map_of (c @ e) k = map_of c k"
  by (auto simp: map_add_def split: option.splits)

lemma cities_have_state: "r \<in> set cities \<Longrightarrow> map_of r ''state'' \<noteq> None"
  by (auto simp: cities_def)

lemma in_states_append:
  "map_of c ''state'' \<noteq> None \<Longrightarrow> in_states sf (c @ extra) = in_states sf c"
  by (simp add: in_states_def map_of_append_left del: map_of_append)

lemma cities_NY: "filter (in_states [''NY'']) cities =
   [[(''city'', JStr ''New York''), (''state'', JStr ''NY''),
      (''latitude'', JFloat (Fin (407128 / 10000))), (''longitude'', JFloat (Fin (- (740060 / 10000)))),
      (''population'', JInt 8804190)]]"
  by (simp add: cities_def in_states_def)

lemma sample_NY:
  "filter_states [''NY''] (sample_map_rows gen) =
     Inr (map (\<lambda>c. c @ gen c) (filter (in_states [''NY'']) cities))"
proof -
  have st: "\<forall>r\<in>set (sample_map_rows gen). map_of r ''state'' \<noteq> None"
    using cities_have_state by (auto simp: sample_map_rows_def map_of_append_left simp del: map_of_append)
  have "filter (in_states [''NY'']) (map (\<lambda>c. c @ gen c) cities) =
        map (\<lambda>c. c @ gen c) (filter (in_states [''NY'']) cities)"
    unfolding filter_map
    by (rule arg_cong[where f="map _"], rule filter_cong)
       (auto simp: in_states_append cities_have_state)
  then show ?thesis
    using filter_states_total[OF st, of "[''NY'']"]
    by (simp add: sample_map_rows_def)
qed

lemma clean_lat_lon_empty:
  "clean_lat_lon parse (JList []) lat lon = Inl (KeyError lat)"
  by (simp add: clean_lat_lon_def columns_def)

text \<open>
  C1. The claim gives every fallback the length \<open>max(1, floor(N * P / 100))\<close> for
  \<open>N > 0\<close> records and a percentage \<open>P < 100\<close>. The map fallback computes
  \<open>int(N * P / 100)\<close> without the floor of one that the demographic and insights
  fallbacks and \<open>apply_tier_limit\<close> apply: with the remote side down, the Free
  tier (33 percent) and the state filter \<open>["NY"]\<close>, the one New York record of the
  sample table is cut to no record at all (and the sanitizer then fails on the
  empty list), where the claim promises one record.
\<close>

theorem map_fallback_single_state_empty:
  "fst (get_map_data (offline_env (sample_map_rows gen)) (session_of_tier ''Free'') (Some [''NY''])) =
     Inr (JDict [(''data'', JList []), (''error'', JStr ''Lat/lon cleaning failed'')])"
proof -
  let ?env = "offline_env (sample_map_rows gen)"
  have c: "\<not> client ?env" by (simp add: offline_env_def)
  have tp: "gateway_tier_percentage ?env (session_of_tier ''Free'') =
      (33, snd (gateway_tier_percentage ?env (session_of_tier ''Free'')))"
    using gateway_tier_percentage_session_of_tier[of ?env "''Free''"]
    by (simp add: TIER_ACCESS_def prod_eq_iff)
  have fb: "map_data_fallback ?env 33 (Some [''NY'']) err =
      JDict [(''data'', JList []), (''error'', JStr ''Lat/lon cleaning failed'')]" for err
    by (simp add: map_data_fallback_def offline_env_def sample_NY cities_NY
          py_int_div_def py_slice_to_def clean_lat_lon_empty)
  show ?thesis
    unfolding get_map_data_def
    by (subst tp)
       (simp add: execute_offline[OF c] error_dict_def map_data_result_def fb Let_def)
qed

subsection \<open>The coordinate sanitizer\<close>

lemma dict_rows_map: "dict_rows (map JDict rows) = Some rows"
  by (induction rows) simp_all

lemma map_of_pad:
  "map_of (pad cols r) k =
     (if k \<in> set cols then Some (case map_of r k of None \<Rightarrow> JFloat NaN | Some v \<Rightarrow> v) else None)"
  unfolding pad_def by (induction cols) auto

lemma map_of_coerce_column:
  "map_of (coerce_column f c r) k =
     (if k = c then map_option (\<lambda>v. JFloat (f v)) (map_of r k) else map_of r k)"
  unfolding coerce_column_def by (induction r) auto

lemma set_foldl_columns:
  "set (foldl (\<lambda>cols r. cols @ filter (\<lambda>k. k \<notin> set cols) (remdups (map fst r))) acc rows) =
     set acc \<union> (\<Union>r\<in>set rows. fst ` set r)"
  by (induction rows arbitrary: acc) auto

lemma set_columns: "set (columns rows) = (\<Union>r\<in>set rows. fst ` set r)"
  by (simp add: columns_def set_foldl_columns)

lemma cell_cleaned_record:
  assumes "''latitude'' \<in> set cols" "''longitude'' \<in> set cols"
  shows "cell (cleaned_record parse cols r) ''latitude'' = coordinate parse r ''latitude''"
    and "cell (cleaned_record parse cols r) ''longitude'' = coordinate parse r ''longitude''"
  using assms
  by (simp_all add: cell_def cleaned_record_def map_of_coerce_column map_of_pad coordinate_def
        split: option.splits)

lemma filter_cleaned:
  assumes "''latitude'' \<in> set cols" and "''longitude'' \<in> set cols"
  shows "filter (\<lambda>r. fnum_ge (cell r ''longitude'') (- 180) \<and> fnum_le (cell r ''longitude'') 180)
            (filter (\<lambda>r. fnum_ge (cell r ''latitude'') (- 90) \<and> fnum_le (cell r ''latitude'') 90)
              (filter (\<lambda>r. cell r ''latitude'' \<noteq> NaN \<and> cell r ''longitude'' \<noteq> NaN)
                 (map (cleaned_record parse cols) xs))) =
           map (cleaned_record parse cols) (filter (valid_coordinates parse) xs)"
  by (induction xs) (auto simp: cell_cleaned_record[OF assms] valid_coordinates_def)

lemma clean_lat_lon_exact:
  assumes "''latitude'' \<in> set (columns rows)" and "''longitude'' \<in> set (columns rows)"
  shows "clean_lat_lon parse (JList (map JDict rows)) ''latitude'' ''longitude'' =
           Inr (map (cleaned_record parse (columns rows)) (filter (valid_coordinates parse) rows))"
proof -
  let ?n = "cleaned_record parse (columns rows)"
  have m: "map (coerce_column (pd_to_numeric parse) ''longitude'')
             (map (coerce_column (pd_to_numeric parse) ''latitude'') (map (pad (columns rows)) rows)) =
           map ?n rows"
    by (simp add: cleaned_record_def)
  note f = filter_cleaned[OF assms, of parse rows, simplified]
  show ?thesis
    using assms unfolding clean_lat_lon_def
    by (simp add: dict_rows_map Let_def m f del: map_map)
qed







subsection \<open>Remote failure, retry and fallback\<close>

lemma remote_failed_error:
  assumes "remote_failed r"
  shows "py_in ''error'' r = Inr True" and "\<exists>err. py_subscript r ''error'' = Inr err"
proof -
  show "py_in ''error'' r = Inr True"
    using assms by (simp add: remote_failed_def)
  from assms obtain d where d: "r = JDict d"
    by (cases r) (simp_all add: remote_failed_def)
  with assms have "''error'' \<in> fst ` set d"
    by (simp add: remote_failed_def)
  then have "map_of d ''error'' \<noteq> None"
    by (simp add: map_of_eq_None_iff)
  then show "\<exists>err. py_subscript r ''error'' = Inr err"
    by (auto simp: d)
qed



text \<open>The three fetches, with the tier percentage named.\<close>

lemma get_map_data_unfold:
  "get_map_data env s sf =
     (let tp = fst (gateway_tier_percentage env s);
          params = rpc_params tp sf;
          first = execute_supabase_function env ''get_map_data_with_tooltips'' params;
          second = execute_supabase_function env ''get_enhanced_map_data'' params
      in if remote_failed first
         then (map_data_result env tp sf second, snd (gateway_tier_percentage env s),
               [(''get_map_data_with_tooltips'', params), (''get_enhanced_map_data'', params)])
         else (map_data_result env tp sf first, snd (gateway_tier_percentage env s),
               [(''get_map_data_with_tooltips'', params)]))"
  by (simp add: get_map_data_def remote_failed_def Let_def split: prod.splits)



lemma map_data_result_failed:
  assumes "remote_failed r" and "py_subscript r ''error'' = Inr err"
  shows "map_data_result env tp sf r = Inr (map_data_fallback env tp sf err)"
  using assms remote_failed_error(1)[OF assms(1)] by (simp add: map_data_result_def)








subsection \<open>Truncation before sanitation\<close>

lemma py_slice_to_nonneg:
  "0 \<le> tp \<Longrightarrow> py_slice_to xs (py_int_div (int (length xs) * tp) 100) =
     take (nat (int (length xs) * tp div 100)) xs"
  by (simp add: py_slice_to_def py_int_div_def pos_imp_zdiv_nonneg_iff)

lemma length_filter_valid:
  "length (filter P xs) = length xs - length (filter (\<lambda>x. \<not> P x) xs)"
  using sum_length_filter_compl[of P xs] by simp

text \<open>The \<open>data\<close> field of the map fallback for sample records that all carry the
  three keys: the quota is cut first and then cleaned.\<close>

lemma map_data_fallback_data:
  assumes "get_sample_map_data env = Inr sample"
      and "\<forall>r\<in>set sample. ''latitude'' \<in> fst ` set r \<and> ''longitude'' \<in> fst ` set r \<and>
                           ''state'' \<in> fst ` set r"
      and "0 \<le> tp"
      and "filtered = (case sf of Some (x # xs) \<Rightarrow> filter (in_states (x # xs)) sample | _ \<Rightarrow> sample)"
      and "quota = (if tp < 100 then take (nat (int (length filtered) * tp div 100)) filtered
                    else filtered)"
  shows "py_subscript (map_data_fallback env tp sf err) ''data'' =
           Inr (JList (map JDict (map (cleaned_record (parse_float env) (columns quota))
                                     (filter (valid_coordinates (parse_float env)) quota))))"
proof -
  have st: "\<forall>r\<in>set sample. map_of r ''state'' \<noteq> None"
    using assms(2) by (simp add: map_of_eq_None_iff)
  have flt: "(case sf of Some (x # xs) \<Rightarrow> filter_states (x # xs) sample | _ \<Rightarrow> Inr sample) =
             Inr filtered"
    unfolding assms(4) using filter_states_total[OF st]
    by (simp split: option.splits list.splits)
  have sub: "set quota \<subseteq> set sample"
  proof -
    have "set filtered \<subseteq> set sample"
      unfolding assms(4) by (auto split: option.splits list.splits)
    moreover have "set quota \<subseteq> set filtered"
      unfolding assms(5) by (auto dest: in_set_takeD)
    ultimately show ?thesis by blast
  qed
  have lim: "(if tp < 100
              then py_slice_to filtered (py_int_div (int (length filtered) * tp) 100)
              else filtered) = quota"
    unfolding assms(5) using assms(3) by (simp add: py_slice_to_nonneg)
  show ?thesis
  proof (cases quota)
    case Nil
    then show ?thesis
      by (simp add: map_data_fallback_def assms(1) flt lim clean_lat_lon_empty)
  next
    case (Cons r rest)
    then have "r \<in> set sample" using sub by auto
    then have "''latitude'' \<in> fst ` set r" "''longitude'' \<in> fst ` set r"
      using assms(2) by auto
    then have "''latitude'' \<in> set (columns quota)" "''longitude'' \<in> set (columns quota)"
      unfolding set_columns Cons by auto
    then show ?thesis
      by (simp add: map_data_fallback_def assms(1) flt lim clean_lat_lon_exact)
  qed
qed

text \<open>
  C3. When both remote calls of the map fetch fail and the sample records carry
  latitude, longitude and state, the percentage cut is applied first, to the
  state-filtered sample list, and the sanitizer afterwards, to the cut list only:
  the returned records are the valid ones of that prefix, and their number is
  the length of the prefix minus the number of invalid records in it.
\<close>

theorem map_fallback_truncates_then_cleans:
  assumes "tp = fst (gateway_tier_percentage env s)"
      and "remote_failed (execute_supabase_function env ''get_map_data_with_tooltips''
                            (rpc_params tp sf))"
      and "remote_failed (execute_supabase_function env ''get_enhanced_map_data''
                            (rpc_params tp sf))"
      and "get_sample_map_data env = Inr sample"
      and "\<forall>r\<in>set sample. ''latitude'' \<in> fst ` set r \<and> ''longitude'' \<in> fst ` set r \<and>
                           ''state'' \<in> fst ` set r"
      and "filtered = (case sf of Some (x # xs) \<Rightarrow> filter (in_states (x # xs)) sample | _ \<Rightarrow> sample)"
      and "quota = (if tp < 100 then take (nat (int (length filtered) * tp div 100)) filtered
                    else filtered)"
  shows "\<exists>res kept.
           fst (get_map_data env s sf) = Inr res \<and>
           py_subscript res ''data'' = Inr (JList (map JDict kept)) \<and>
           kept = map (cleaned_record (parse_float env) (columns quota))
                      (filter (valid_coordinates (parse_float env)) quota) \<and>
           length kept =
             length quota - length (filter (\<lambda>r. \<not> valid_coordinates (parse_float env) r) quota)"
proof -
  obtain err where err: "py_subscript (execute_supabase_function env ''get_enhanced_map_data''
                            (rpc_params tp sf)) ''error'' = Inr err"
    using remote_failed_error(2)[OF assms(3)] by blast
  have res: "fst (get_map_data env s sf) = Inr (map_data_fallback env tp sf err)"
    using assms(1,2,3) err
    by (simp add: get_map_data_unfold Let_def map_data_result_failed)
  have "0 \<le> tp"
    using gateway_tier_percentage_range[of env s] assms(1) by auto
  note data = map_data_fallback_data[OF assms(4,5) this assms(6,7), of err]
  show ?thesis
    using res data length_filter_valid[of "valid_coordinates (parse_float env)" quota]
    by simp
qed

theorem map_fallback_truncates_then_cleans_witness:
  "\<exists>res kept.
     fst (get_map_data (offline_env probe_rows) (session_of_tier ''Accelerate'') None) = Inr res \<and>
     py_subscript res ''data'' = Inr (JList (map JDict kept)) \<and>
     length kept = 1"
proof -
  let ?env = "offline_env probe_rows"
  have tp: "66 = fst (gateway_tier_percentage ?env (session_of_tier ''Accelerate''))"
    by (simp add: gateway_tier_percentage_session_of_tier TIER_ACCESS_def)
  have c: "\<not> client ?env" by (simp add: offline_env_def)
  have f: "remote_failed (execute_supabase_function ?env fn q)" for fn q
    by (simp add: execute_offline[OF c] remote_failed_error_dict)
  have sample: "get_sample_map_data ?env = Inr probe_rows"
    and parse: "parse_float ?env = unparsed"
    by (simp_all add: offline_env_def)
  have keys: "\<forall>r\<in>set probe_rows. ''latitude'' \<in> fst ` set r \<and> ''longitude'' \<in> fst ` set r \<and>
                           ''state'' \<in> fst ` set r"
    by (simp add: probe_rows_def)
  have filtered: "probe_rows = (case None of Some (x # xs) \<Rightarrow> filter (in_states (x # xs)) probe_rows
                                | _ \<Rightarrow> probe_rows)"
    by simp
  have quota: "take 2 probe_rows =
      (if (66::int) < 100 then take (nat (int (length probe_rows) * 66 div 100)) probe_rows
       else probe_rows)"
    by (simp add: probe_rows_def)
  have invalid: "length (filter (\<lambda>r. \<not> valid_coordinates unparsed r) (take 2 probe_rows)) = 1"
    by (simp add: probe_rows_def valid_coordinates_def coordinate_def)
  have len: "length (take 2 probe_rows) = 2"
    by (simp add: probe_rows_def)
  obtain res kept where
    r: "fst (get_map_data ?env (session_of_tier ''Accelerate'') None) = Inr res"
       "py_subscript res ''data'' = Inr (JList (map JDict kept))"
    and l: "length kept = length (take 2 probe_rows) -
              length (filter (\<lambda>r. \<not> valid_coordinates (parse_float ?env) r) (take 2 probe_rows))"
    using map_fallback_truncates_then_cleans[OF tp f f sample keys filtered quota] by blast
  have "length kept = 1"
    using l unfolding parse invalid len by simp
  then show ?thesis
    using r by blast
qed

subsection \<open>Structured results\<close>









subsection \<open>The truncations that keep at least one record\<close>

lemma py_slice_to_limit_size:
  "py_slice_to xs (limit_size (length xs) p) = take (nat (limit_size (length xs) p)) xs"
  by (simp add: py_slice_to_def limit_size_def)

lemma limit_size_le:
  assumes "0 \<le> p" and "p < 100" and "0 < n"
  shows "1 \<le> limit_size n p" and "limit_size n p \<le> int n"
proof -
  show "1 \<le> limit_size n p" by (simp add: limit_size_def)
  have "int n * p \<le> int n * 100"
    using assms by (intro mult_left_mono) simp_all
  then have "int n * p div 100 \<le> int n"
    by (metis div_by_1 nonzero_mult_div_cancel_right zdiv_mono1 zero_less_numeral
          less_numeral_extra(3) mult.commute div_mult_self1_is_m)
  then show "limit_size n p \<le> int n"
    using assms by (simp add: limit_size_def py_int_div_def)
qed

text \<open>\<open>apply_tier_limit\<close> on a list: untouched at 100 percent and above and when empty,
  else the prefix of \<open>max(1, int(N * P / 100))\<close> records.\<close>

lemma apply_tier_limit_list:
  "fst (apply_tier_limit env s (Json (JList xs)) (Some p)) =
     Inr (Json (JList (if xs = [] \<or> 100 \<le> p then xs
                       else take (nat (limit_size (length xs) p)) xs)))"
  by (simp add: apply_tier_limit_def py_slice_to_limit_size)

lemma apply_tier_limit_list_length:
  assumes "0 \<le> p" and "p < 100" and "xs \<noteq> []"
  shows "\<exists>ys. fst (apply_tier_limit env s (Json (JList xs)) (Some p)) = Inr (Json (JList ys)) \<and>
              int (length ys) = max 1 (int (length xs) * p div 100)"
proof -
  have n: "0 < length xs" using assms(3) by simp
  have "int (length (take (nat (limit_size (length xs) p)) xs)) = limit_size (length xs) p"
    using limit_size_le[OF assms(1,2) n] by simp
  then show ?thesis
    using assms by (simp add: apply_tier_limit_list limit_size_def py_int_div_def)
qed

text \<open>The demographic and the insights fallback cut a list field the same way.\<close>

lemma limit_field_prefix:
  assumes "map_of sample field = Some xs"
  shows "map_of (limit_field p field sample) field =
           Some (take (nat (limit_size (length xs) p)) xs)"
  using assms
  by (simp add: limit_field_def update_conv' py_slice_to_limit_size[unfolded limit_size_def]
        limit_size_def)

text \<open>The bundled city table carries the three keys the map fallback reads.\<close>

lemma sample_map_rows_keys:
  "\<forall>r\<in>set (sample_map_rows gen).
     ''latitude'' \<in> fst ` set r \<and> ''longitude'' \<in> fst ` set r \<and> ''state'' \<in> fst ` set r"
  by (simp add: sample_map_rows_def cities_def image_Un)

lemma init_session_tier:
  "session_user_info s = None \<Longrightarrow> fst (get_user_tier env (init_session s)) = ''Free''"
  by (simp add: init_session_def get_user_tier_def now_def)


section \<open>The derived opportunity score\<close>










end
